theory Spec2Isabelle
  imports Main "HOL-Library.Word"
begin

section \<open>Data model (internal/models)\<close>

text \<open>
  Go's \<open>int64\<close> is a 64-bit word: \<open>+\<close> and \<open>-\<close> wrap around, comparisons are
  signed (\<open><s\<close>, \<open>\<le>s\<close>), and \<open>sint\<close> reads the integer a word stands for.
  A \<open>uuid.UUID\<close> is 16 bytes, compared by equality only.

  The surrogate keys of wallets and transactions (random UUIDs set in \<open>BeforeCreate\<close>),
  the timestamps and the preloaded associations (\<open>User\<close>, \<open>FromUser\<close>, \<open>ToUser\<close>, \<open>Wallet\<close>)
  are never read by the use cases and are left out of the records.
\<close>

type_synonym int64 = "64 word"
type_synonym uuid = "128 word"

record User =
  u_ID :: uuid
  u_Name :: string
  u_Email :: string

record Wallet =
  w_UserID :: uuid
  w_Balance :: int64

datatype TransactionType = TransactionTypeCredit | TransactionTypeDebit | TransactionTypeTransfer

datatype TransactionStatus =
  TransactionStatusPending | TransactionStatusCompleted | TransactionStatusFailed

record Transaction =
  t_UserID :: uuid
  t_Type :: TransactionType
  t_Amount :: int64
  t_Description :: string
  t_Status :: TransactionStatus
  t_Reference :: string
  t_FromUserID :: "uuid option"
  t_ToUserID :: "uuid option"

record ReconciliationResult =
  r_UserID :: uuid
  r_StoredBalance :: int64
  r_CalculatedBalance :: int64
  r_Difference :: int64
  r_HasMismatch :: bool

text \<open>
  The error values of the use cases. \<open>Errorf m\<close> is \<open>fmt.Errorf(m)\<close> with no wrapped
  error, \<open>Wrapped m e\<close> is \<open>fmt.Errorf(m + ": %w", e)\<close>. \<open>ErrRecordNotFound\<close> is gorm's,
  \<open>ErrDuplicatedKey\<close> is the store's answer to an insert that violates a \<open>unique\<close>
  column, \<open>ErrOutOfRange\<close> the failure to scan a sum into an \<open>int64\<close>.
\<close>

datatype error =
  ErrUserNotFound
| ErrUserAlreadyExists
| ErrInsufficientFunds
| ErrInvalidAmount
| ErrTransactionExists
| ErrWalletNotFound
| ErrSameUser
| ErrRecordNotFound
| ErrDuplicatedKey
| ErrOutOfRange
| Errorf string
| Wrapped string error

section \<open>The store (internal/repositories)\<close>

text \<open>
  The three tables are lists of rows in insertion order. \<open>wallet_log\<close> is a ghost field:
  the statements issued against single rows of the wallets table, in the order the use
  cases issue them. It is not a table and a rollback does not undo it.
\<close>

datatype wallet_access = InsertWallet uuid | ReadWallet uuid | WriteBalance uuid

record db =
  users :: "User list"
  wallets :: "Wallet list"
  transactions :: "Transaction list"
  wallet_log :: "wallet_access list"

definition empty_db :: db where
  "empty_db = \<lparr>users = [], wallets = [], transactions = [], wallet_log = []\<rparr>"

text \<open>
  \<open>db.First(&x, cond)\<close>: the first matching row, or gorm's \<open>ErrRecordNotFound\<close>. The
  columns the use cases look rows up by are unique, so at most one row of a store that
  the operations built matches.
\<close>

definition First :: "('a \<Rightarrow> bool) \<Rightarrow> 'a list \<Rightarrow> error + 'a" where
  "First P rows = (case find P rows of None \<Rightarrow> Inl ErrRecordNotFound | Some x \<Rightarrow> Inr x)"

definition User_GetByID :: "db \<Rightarrow> uuid \<Rightarrow> error + User" where
  "User_GetByID s uid = First (\<lambda>u. u_ID u = uid) (users s)"

definition User_GetByEmail :: "db \<Rightarrow> string \<Rightarrow> error + User" where
  "User_GetByEmail s email = First (\<lambda>u. u_Email u = email) (users s)"

text \<open>\<open>users.id\<close> is the primary key and \<open>users.email\<close> is \<open>unique\<close>.\<close>

definition User_Create :: "db \<Rightarrow> User \<Rightarrow> error option \<times> db" where
  "User_Create s user =
     (if (\<exists>u \<in> set (users s). u_ID u = u_ID user \<or> u_Email u = u_Email user)
      then (Some ErrDuplicatedKey, s)
      else (None, s\<lparr>users := users s @ [user]\<rparr>))"

text \<open>\<open>wallets.user_id\<close> is \<open>unique\<close>.\<close>

definition Wallet_Create :: "db \<Rightarrow> Wallet \<Rightarrow> error option \<times> db" where
  "Wallet_Create s wallet =
     (let s' = s\<lparr>wallet_log := wallet_log s @ [InsertWallet (w_UserID wallet)]\<rparr>
      in if (\<exists>w \<in> set (wallets s). w_UserID w = w_UserID wallet)
         then (Some ErrDuplicatedKey, s')
         else (None, s'\<lparr>wallets := wallets s @ [wallet]\<rparr>))"

definition Wallet_GetByUserID :: "db \<Rightarrow> uuid \<Rightarrow> (error + Wallet) \<times> db" where
  "Wallet_GetByUserID s userID =
     (First (\<lambda>w. w_UserID w = userID) (wallets s),
      s\<lparr>wallet_log := wallet_log s @ [ReadWallet userID]\<rparr>)"

text \<open>\<open>UPDATE wallets SET balance = ? WHERE user_id = ?\<close>: no row matching is no error.\<close>

definition Wallet_UpdateBalance :: "db \<Rightarrow> uuid \<Rightarrow> int64 \<Rightarrow> error option \<times> db" where
  "Wallet_UpdateBalance s userID newBalance =
     (None,
      s\<lparr>wallets := map (\<lambda>w. if w_UserID w = userID then w\<lparr>w_Balance := newBalance\<rparr> else w)
                       (wallets s),
        wallet_log := wallet_log s @ [WriteBalance userID]\<rparr>)"

definition Wallet_GetAllWallets :: "db \<Rightarrow> error + Wallet list" where
  "Wallet_GetAllWallets s = Inr (wallets s)"

text \<open>\<open>transactions.reference\<close> is \<open>unique\<close>: the store refuses a second row with it.\<close>

definition Transaction_Create :: "db \<Rightarrow> Transaction \<Rightarrow> error option \<times> db" where
  "Transaction_Create s transaction =
     (if (\<exists>t \<in> set (transactions s). t_Reference t = t_Reference transaction)
      then (Some ErrDuplicatedKey, s)
      else (None, s\<lparr>transactions := transactions s @ [transaction]\<rparr>))"

definition Transaction_GetByReference :: "db \<Rightarrow> string \<Rightarrow> error + Transaction" where
  "Transaction_GetByReference s reference =
     First (\<lambda>t. t_Reference t = reference) (transactions s)"

text \<open>
  \<open>tx.Rollback()\<close> restores the tables as they were at \<open>BeginTransaction\<close> (\<open>s0\<close>);
  \<open>tx.Commit()\<close> keeps the current ones.
\<close>

definition Rollback :: "db \<Rightarrow> db \<Rightarrow> db" where
  "Rollback s0 s =
     s\<lparr>users := users s0, wallets := wallets s0, transactions := transactions s0\<rparr>"

section \<open>Use cases (internal/usecases)\<close>

subsection \<open>FundWallet\<close>

text \<open>
  Each operation is split where the source says \<open>// Start transaction\<close>: the checks
  before it read the store outside any unit of work, the unit runs from
  \<open>BeginTransaction\<close> to \<open>Commit\<close>. The checks return \<open>Some r\<close> for an early return
  and \<open>None\<close> to go on. A unit of work runs on the store alone; the store is available
  and fails a statement only for the reasons given above.
\<close>

definition FundWallet_checks ::
  "db \<Rightarrow> uuid \<Rightarrow> int64 \<Rightarrow> string \<Rightarrow> (error + Transaction) option" where
  "FundWallet_checks s userID amount reference =
     (if amount \<le>s 0 then Some (Inl ErrInvalidAmount)
      else case Transaction_GetByReference s reference of
        Inr existingTxn \<Rightarrow> Some (Inr existingTxn)
      | Inl err \<Rightarrow>
          if err \<noteq> ErrRecordNotFound
          then Some (Inl (Wrapped ''failed to check existing transaction'' err))
          else (case User_GetByID s userID of
                  Inl err \<Rightarrow>
                    if err = ErrRecordNotFound then Some (Inl ErrUserNotFound)
                    else Some (Inl (Wrapped ''failed to get user'' err))
                | Inr user \<Rightarrow> None))"

definition FundWallet_unit ::
  "db \<Rightarrow> uuid \<Rightarrow> int64 \<Rightarrow> string \<Rightarrow> (error + Transaction) \<times> db" where
  "FundWallet_unit s userID amount reference =
     (case Wallet_GetByUserID s userID of
        (Inl err, s1) \<Rightarrow> (Inl (Wrapped ''failed to get wallet'' err), Rollback s s1)
      | (Inr wallet, s1) \<Rightarrow>
          let transaction = \<lparr>t_UserID = userID, t_Type = TransactionTypeCredit,
                t_Amount = amount, t_Description = ''Wallet funding'',
                t_Status = TransactionStatusCompleted, t_Reference = reference,
                t_FromUserID = None, t_ToUserID = None\<rparr>
          in (case Transaction_Create s1 transaction of
                (Some err, s2) \<Rightarrow>
                  (Inl (Wrapped ''failed to create transaction'' err), Rollback s s2)
              | (None, s2) \<Rightarrow>
                  let newBalance = w_Balance wallet + amount
                  in (case Wallet_UpdateBalance s2 userID newBalance of
                        (Some err, s3) \<Rightarrow>
                          (Inl (Wrapped ''failed to update wallet balance'' err), Rollback s s3)
                      | (None, s3) \<Rightarrow> (Inr transaction, s3))))"

definition FundWallet ::
  "db \<Rightarrow> uuid \<Rightarrow> int64 \<Rightarrow> string \<Rightarrow> (error + Transaction) \<times> db" where
  "FundWallet s userID amount reference =
     (case FundWallet_checks s userID amount reference of
        Some r \<Rightarrow> (r, s)
      | None \<Rightarrow> FundWallet_unit s userID amount reference)"

subsection \<open>WithdrawFunds\<close>

definition WithdrawFunds_checks ::
  "db \<Rightarrow> uuid \<Rightarrow> int64 \<Rightarrow> string \<Rightarrow> (error + Transaction) option" where
  "WithdrawFunds_checks s userID amount reference =
     (if amount \<le>s 0 then Some (Inl ErrInvalidAmount)
      else case Transaction_GetByReference s reference of
        Inr existingTxn \<Rightarrow> Some (Inr existingTxn)
      | Inl err \<Rightarrow>
          if err \<noteq> ErrRecordNotFound
          then Some (Inl (Wrapped ''failed to check existing transaction'' err))
          else (case User_GetByID s userID of
                  Inl err \<Rightarrow>
                    if err = ErrRecordNotFound then Some (Inl ErrUserNotFound)
                    else Some (Inl (Wrapped ''failed to get user'' err))
                | Inr user \<Rightarrow> None))"

definition WithdrawFunds_unit ::
  "db \<Rightarrow> uuid \<Rightarrow> int64 \<Rightarrow> string \<Rightarrow> (error + Transaction) \<times> db" where
  "WithdrawFunds_unit s userID amount reference =
     (case Wallet_GetByUserID s userID of
        (Inl err, s1) \<Rightarrow> (Inl (Wrapped ''failed to get wallet'' err), Rollback s s1)
      | (Inr wallet, s1) \<Rightarrow>
          if w_Balance wallet <s amount then (Inl ErrInsufficientFunds, Rollback s s1)
          else
            let transaction = \<lparr>t_UserID = userID, t_Type = TransactionTypeDebit,
                  t_Amount = amount, t_Description = ''Wallet withdrawal'',
                  t_Status = TransactionStatusCompleted, t_Reference = reference,
                  t_FromUserID = None, t_ToUserID = None\<rparr>
            in (case Transaction_Create s1 transaction of
                  (Some err, s2) \<Rightarrow>
                    (Inl (Wrapped ''failed to create transaction'' err), Rollback s s2)
                | (None, s2) \<Rightarrow>
                    let newBalance = w_Balance wallet - amount
                    in (case Wallet_UpdateBalance s2 userID newBalance of
                          (Some err, s3) \<Rightarrow>
                            (Inl (Wrapped ''failed to update wallet balance'' err),
                             Rollback s s3)
                        | (None, s3) \<Rightarrow> (Inr transaction, s3))))"

definition WithdrawFunds ::
  "db \<Rightarrow> uuid \<Rightarrow> int64 \<Rightarrow> string \<Rightarrow> (error + Transaction) \<times> db" where
  "WithdrawFunds s userID amount reference =
     (case WithdrawFunds_checks s userID amount reference of
        Some r \<Rightarrow> (r, s)
      | None \<Rightarrow> WithdrawFunds_unit s userID amount reference)"

subsection \<open>TransferFunds\<close>

text \<open>
  The checks hand the recipient on to the unit, which needs the recipient's name for
  the description of the entry.
\<close>

definition TransferFunds_checks ::
  "db \<Rightarrow> uuid \<Rightarrow> uuid \<Rightarrow> int64 \<Rightarrow> string \<Rightarrow> (error + Transaction) + User" where
  "TransferFunds_checks s fromUserID toUserID amount reference =
     (if amount \<le>s 0 then Inl (Inl ErrInvalidAmount)
      else if fromUserID = toUserID then Inl (Inl ErrSameUser)
      else case Transaction_GetByReference s reference of
        Inr existingTxn \<Rightarrow> Inl (Inr existingTxn)
      | Inl err \<Rightarrow>
          if err \<noteq> ErrRecordNotFound
          then Inl (Inl (Wrapped ''failed to check existing transaction'' err))
          else (case User_GetByID s fromUserID of
                  Inl err \<Rightarrow>
                    if err = ErrRecordNotFound then Inl (Inl (Errorf ''sender not found''))
                    else Inl (Inl (Wrapped ''failed to get sender'' err))
                | Inr fromUser \<Rightarrow>
                    (case User_GetByID s toUserID of
                       Inl err \<Rightarrow>
                         if err = ErrRecordNotFound
                         then Inl (Inl (Errorf ''recipient not found''))
                         else Inl (Inl (Wrapped ''failed to get recipient'' err))
                     | Inr toUser \<Rightarrow> Inr toUser)))"

definition TransferFunds_unit ::
  "db \<Rightarrow> uuid \<Rightarrow> uuid \<Rightarrow> User \<Rightarrow> int64 \<Rightarrow> string \<Rightarrow> (error + Transaction) \<times> db" where
  "TransferFunds_unit s fromUserID toUserID toUser amount reference =
     (case Wallet_GetByUserID s fromUserID of
        (Inl err, s1) \<Rightarrow> (Inl (Wrapped ''failed to get sender wallet'' err), Rollback s s1)
      | (Inr fromWallet, s1) \<Rightarrow>
          if w_Balance fromWallet <s amount then (Inl ErrInsufficientFunds, Rollback s s1)
          else
            (case Wallet_GetByUserID s1 toUserID of
               (Inl err, s2) \<Rightarrow>
                 (Inl (Wrapped ''failed to get recipient wallet'' err), Rollback s s2)
             | (Inr toWallet, s2) \<Rightarrow>
                 let transaction = \<lparr>t_UserID = fromUserID, t_Type = TransactionTypeTransfer,
                       t_Amount = amount, t_Description = ''Transfer to '' @ u_Name toUser,
                       t_Status = TransactionStatusCompleted, t_Reference = reference,
                       t_FromUserID = Some fromUserID, t_ToUserID = Some toUserID\<rparr>
                 in (case Transaction_Create s2 transaction of
                       (Some err, s3) \<Rightarrow>
                         (Inl (Wrapped ''failed to create transaction'' err), Rollback s s3)
                     | (None, s3) \<Rightarrow>
                         let newFromBalance = w_Balance fromWallet - amount
                         in (case Wallet_UpdateBalance s3 fromUserID newFromBalance of
                               (Some err, s4) \<Rightarrow>
                                 (Inl (Wrapped ''failed to update sender wallet balance'' err),
                                  Rollback s s4)
                             | (None, s4) \<Rightarrow>
                                 let newToBalance = w_Balance toWallet + amount
                                 in (case Wallet_UpdateBalance s4 toUserID newToBalance of
                                       (Some err, s5) \<Rightarrow>
                                         (Inl (Wrapped
                                            ''failed to update recipient wallet balance'' err),
                                          Rollback s s5)
                                     | (None, s5) \<Rightarrow> (Inr transaction, s5))))))"

definition TransferFunds ::
  "db \<Rightarrow> uuid \<Rightarrow> uuid \<Rightarrow> int64 \<Rightarrow> string \<Rightarrow> (error + Transaction) \<times> db" where
  "TransferFunds s fromUserID toUserID amount reference =
     (case TransferFunds_checks s fromUserID toUserID amount reference of
        Inl r \<Rightarrow> (r, s)
      | Inr toUser \<Rightarrow> TransferFunds_unit s fromUserID toUserID toUser amount reference)"

subsection \<open>CreateUser\<close>

text \<open>
  \<open>newID\<close> is the UUID that \<open>User.BeforeCreate\<close> draws with \<open>uuid.New()\<close>. The last
  line of the source reloads the user that was just committed.
\<close>

definition CreateUser :: "db \<Rightarrow> uuid \<Rightarrow> string \<Rightarrow> string \<Rightarrow> (error + User) \<times> db" where
  "CreateUser s newID name email =
     (case (case User_GetByEmail s email of
              Inl err \<Rightarrow>
                if err \<noteq> ErrRecordNotFound
                then Some (Wrapped ''failed to check existing user'' err) else None
            | Inr existingUser \<Rightarrow> Some ErrUserAlreadyExists) of
        Some e \<Rightarrow> (Inl e, s)
      | None \<Rightarrow>
          let user = \<lparr>u_ID = newID, u_Name = name, u_Email = email\<rparr>
          in (case User_Create s user of
                (Some err, s1) \<Rightarrow> (Inl (Wrapped ''failed to create user'' err), Rollback s s1)
              | (None, s1) \<Rightarrow>
                  let wallet = \<lparr>w_UserID = u_ID user, w_Balance = 0\<rparr>
                  in (case Wallet_Create s1 wallet of
                        (Some err, s2) \<Rightarrow>
                          (Inl (Wrapped ''failed to create wallet'' err), Rollback s s2)
                      | (None, s2) \<Rightarrow> (User_GetByID s2 (u_ID user), s2))))"

subsection \<open>Interleaving with other callers\<close>

text \<open>
  The checks and the unit of work are separate statements against the store, so what
  other callers commit in between is visible to the unit. Here the checks read the
  store \<open>s\<close> and the unit of work starts from the store \<open>s'\<close>; with \<open>s' = s\<close> these
  are the operations above.
\<close>

definition FundWallet_racing ::
  "db \<Rightarrow> db \<Rightarrow> uuid \<Rightarrow> int64 \<Rightarrow> string \<Rightarrow> (error + Transaction) \<times> db" where
  "FundWallet_racing s s' userID amount reference =
     (case FundWallet_checks s userID amount reference of
        Some r \<Rightarrow> (r, s')
      | None \<Rightarrow> FundWallet_unit s' userID amount reference)"

definition WithdrawFunds_racing ::
  "db \<Rightarrow> db \<Rightarrow> uuid \<Rightarrow> int64 \<Rightarrow> string \<Rightarrow> (error + Transaction) \<times> db" where
  "WithdrawFunds_racing s s' userID amount reference =
     (case WithdrawFunds_checks s userID amount reference of
        Some r \<Rightarrow> (r, s')
      | None \<Rightarrow> WithdrawFunds_unit s' userID amount reference)"

definition TransferFunds_racing ::
  "db \<Rightarrow> db \<Rightarrow> uuid \<Rightarrow> uuid \<Rightarrow> int64 \<Rightarrow> string \<Rightarrow> (error + Transaction) \<times> db" where
  "TransferFunds_racing s s' fromUserID toUserID amount reference =
     (case TransferFunds_checks s fromUserID toUserID amount reference of
        Inl r \<Rightarrow> (r, s')
      | Inr toUser \<Rightarrow> TransferFunds_unit s' fromUserID toUserID toUser amount reference)"

subsection \<open>The handler's answer to a failed transfer (internal/handlers)\<close>

text \<open>The HTTP status \<open>Handlers.TransferFunds\<close> sends for an error of the use case.\<close>

definition TransferFunds_error_status :: "error \<Rightarrow> nat" where
  "TransferFunds_error_status err =
     (if err = ErrUserNotFound then 404
      else if err = ErrInvalidAmount then 400
      else if err = ErrInsufficientFunds then 400
      else if err = ErrSameUser then 400
      else 500)"

subsection \<open>Reconciliation\<close>

text \<open>
  \<open>GetUserTransactionSum\<close> is one SQL query. \<open>sum_where\<close> is its \<open>WHERE\<close> clause
  (a comparison with a \<open>NULL\<close> column is not true), \<open>sum_case\<close> its \<open>CASE\<close> expression.
  \<open>SUM\<close> adds exactly; the total is then scanned into an \<open>int64\<close>, which fails when
  it does not fit.
\<close>

definition sum_where :: "uuid \<Rightarrow> Transaction \<Rightarrow> bool" where
  "sum_where userID t =
     ((t_UserID t = userID \<or> t_FromUserID t = Some userID \<or> t_ToUserID t = Some userID)
      \<and> t_Status t = TransactionStatusCompleted)"

definition sum_case :: "uuid \<Rightarrow> Transaction \<Rightarrow> int" where
  "sum_case userID t =
     (if t_Type t = TransactionTypeCredit then sint (t_Amount t)
      else if t_Type t = TransactionTypeDebit \<and> t_UserID t = userID then - sint (t_Amount t)
      else if t_Type t = TransactionTypeTransfer \<and> t_FromUserID t = Some userID
        then - sint (t_Amount t)
      else if t_Type t = TransactionTypeTransfer \<and> t_ToUserID t = Some userID
        then sint (t_Amount t)
      else 0)"

definition fits_int64 :: "int \<Rightarrow> bool" where
  "fits_int64 n = (- (2 ^ 63) \<le> n \<and> n < 2 ^ 63)"

definition GetUserTransactionSum :: "db \<Rightarrow> uuid \<Rightarrow> error + int64" where
  "GetUserTransactionSum s userID =
     (let total = sum_list (map (sum_case userID) (filter (sum_where userID) (transactions s)))
      in if fits_int64 total then Inr (word_of_int total) else Inl ErrOutOfRange)"

text \<open>
  The loop of \<open>RunReconciliation\<close> over the wallets, with the repository method that
  computes a sum as a parameter; \<open>continue\<close> is the recursive call with \<open>results\<close> as
  they are.
\<close>

fun reconcile_loop ::
  "(uuid \<Rightarrow> error + int64) \<Rightarrow> Wallet list \<Rightarrow> ReconciliationResult list
     \<Rightarrow> ReconciliationResult list" where
  "reconcile_loop getSum [] results = results"
| "reconcile_loop getSum (wallet # rest) results =
     (case getSum (w_UserID wallet) of
        Inl err \<Rightarrow> reconcile_loop getSum rest results
      | Inr calculatedBalance \<Rightarrow>
          let difference = w_Balance wallet - calculatedBalance;
              hasMismatch = (difference \<noteq> 0);
              result = \<lparr>r_UserID = w_UserID wallet, r_StoredBalance = w_Balance wallet,
                        r_CalculatedBalance = calculatedBalance, r_Difference = difference,
                        r_HasMismatch = hasMismatch\<rparr>
          in reconcile_loop getSum rest (results @ [result]))"

definition RunReconciliation :: "db \<Rightarrow> error + ReconciliationResult list" where
  "RunReconciliation s =
     (case Wallet_GetAllWallets s of
        Inl err \<Rightarrow> Inl (Wrapped ''failed to get wallets'' err)
      | Inr ws \<Rightarrow> Inr (reconcile_loop (GetUserTransactionSum s) ws []))"

section \<open>Sequences of operations\<close>

datatype request =
  ReqCreateUser uuid string string
| ReqFund uuid int64 string
| ReqWithdraw uuid int64 string
| ReqTransfer uuid uuid int64 string

fun step :: "db \<Rightarrow> request \<Rightarrow> db" where
  "step s (ReqCreateUser newID name email) = snd (CreateUser s newID name email)"
| "step s (ReqFund userID amount reference) = snd (FundWallet s userID amount reference)"
| "step s (ReqWithdraw userID amount reference) =
     snd (WithdrawFunds s userID amount reference)"
| "step s (ReqTransfer fromUserID toUserID amount reference) =
     snd (TransferFunds s fromUserID toUserID amount reference)"

fun run :: "db \<Rightarrow> request list \<Rightarrow> db" where
  "run s [] = s"
| "run s (r # rs) = run (step s r) rs"

definition balances_nonneg :: "db \<Rightarrow> bool" where
  "balances_nonneg s = (\<forall>w \<in> set (wallets s). 0 \<le>s w_Balance w)"

text \<open>
  A credit of \<open>amount\<close> to the wallet of \<open>userID\<close> fits when the exact sum is an
  \<open>int64\<close>; a run fits when each of its credits does, in the store it meets.
\<close>

definition credit_fits :: "db \<Rightarrow> uuid \<Rightarrow> int64 \<Rightarrow> bool" where
  "credit_fits s userID amount =
     (\<forall>w \<in> set (wallets s). w_UserID w = userID \<longrightarrow>
        sint (w_Balance w) + sint amount < 2 ^ 63)"

fun request_fits :: "db \<Rightarrow> request \<Rightarrow> bool" where
  "request_fits s (ReqFund userID amount reference) = credit_fits s userID amount"
| "request_fits s (ReqTransfer fromUserID toUserID amount reference) =
     credit_fits s toUserID amount"
| "request_fits s _ = True"

fun run_fits :: "db \<Rightarrow> request list \<Rightarrow> bool" where
  "run_fits s [] = True"
| "run_fits s (r # rs) = (request_fits s r \<and> run_fits (step s r) rs)"

definition balance_of :: "db \<Rightarrow> uuid \<Rightarrow> int64 option" where
  "balance_of s userID = map_option w_Balance (find (\<lambda>w. w_UserID w = userID) (wallets s))"

section \<open>The reconciliation of the specification\<close>

text \<open>
  The derived balance in the specification's words: over the Completed entries touching
  the account (as owner, source or destination), a Credit counts \<open>+amount\<close>, a Debit
  \<open>-amount\<close>, a Transfer \<open>-amount\<close> for its source and \<open>+amount\<close> for its destination.
\<close>

definition touches :: "Transaction \<Rightarrow> uuid \<Rightarrow> bool" where
  "touches t account =
     (t_UserID t = account \<or> t_FromUserID t = Some account \<or> t_ToUserID t = Some account)"

definition signed_contribution :: "uuid \<Rightarrow> Transaction \<Rightarrow> int" where
  "signed_contribution account t =
     (case t_Type t of
        TransactionTypeCredit \<Rightarrow> sint (t_Amount t)
      | TransactionTypeDebit \<Rightarrow> - sint (t_Amount t)
      | TransactionTypeTransfer \<Rightarrow>
          if t_FromUserID t = Some account then - sint (t_Amount t)
          else if t_ToUserID t = Some account then sint (t_Amount t)
          else 0)"

definition derived_balance :: "Transaction list \<Rightarrow> uuid \<Rightarrow> int" where
  "derived_balance entries account =
     sum_list (map (signed_contribution account)
       (filter (\<lambda>t. t_Status t = TransactionStatusCompleted \<and> touches t account) entries))"

text \<open>
  One result per account whose derived balance can be reported (it is an \<open>int64\<close>);
  the others are skipped. The mismatch flag is set exactly when the stored balance and
  the derived one differ.
\<close>

definition reconcile_account :: "Transaction list \<Rightarrow> Wallet \<Rightarrow> ReconciliationResult list" where
  "reconcile_account entries w =
     (let derived = derived_balance entries (w_UserID w)
      in if fits_int64 derived
         then [\<lparr>r_UserID = w_UserID w, r_StoredBalance = w_Balance w,
                r_CalculatedBalance = word_of_int derived,
                r_Difference = word_of_int (sint (w_Balance w) - derived),
                r_HasMismatch = (sint (w_Balance w) \<noteq> derived)\<rparr>]
         else [])"

definition reconcile_spec :: "db \<Rightarrow> ReconciliationResult list" where
  "reconcile_spec s = concat (map (reconcile_account (transactions s)) (wallets s))"

text \<open>
  The shape of the entries of the data model: a Credit or Debit entry references one
  account, a Transfer entry is owned by its source and references two distinct accounts.
\<close>

definition entry_wf :: "Transaction \<Rightarrow> bool" where
  "entry_wf t =
     (case t_Type t of
        TransactionTypeTransfer \<Rightarrow>
          t_FromUserID t = Some (t_UserID t) \<and> t_ToUserID t \<noteq> None
          \<and> t_ToUserID t \<noteq> t_FromUserID t
      | _ \<Rightarrow> t_FromUserID t = None \<and> t_ToUserID t = None)"

definition entries_wf :: "db \<Rightarrow> bool" where
  "entries_wf s = list_all entry_wf (transactions s)"

section \<open>Example stores\<close>

text \<open>
  Two users with a funded wallet each, as \<open>CreateUser\<close> and \<open>FundWallet\<close> leave them;
  and the same store after someone edited the second balance by hand.
\<close>

definition ledger :: db where
  "ledger =
     \<lparr>users = [\<lparr>u_ID = 1, u_Name = ''ann'', u_Email = ''ann@example.com''\<rparr>,
               \<lparr>u_ID = 2, u_Name = ''bob'', u_Email = ''bob@example.com''\<rparr>],
      wallets = [\<lparr>w_UserID = 1, w_Balance = 500\<rparr>, \<lparr>w_UserID = 2, w_Balance = 300\<rparr>],
      transactions =
        [\<lparr>t_UserID = 1, t_Type = TransactionTypeCredit, t_Amount = 500,
          t_Description = ''Wallet funding'', t_Status = TransactionStatusCompleted,
          t_Reference = ''f1'', t_FromUserID = None, t_ToUserID = None\<rparr>,
         \<lparr>t_UserID = 2, t_Type = TransactionTypeCredit, t_Amount = 300,
          t_Description = ''Wallet funding'', t_Status = TransactionStatusCompleted,
          t_Reference = ''f2'', t_FromUserID = None, t_ToUserID = None\<rparr>],
      wallet_log = []\<rparr>"

definition ledger_edited :: db where
  "ledger_edited =
     ledger\<lparr>wallets := [\<lparr>w_UserID = 1, w_Balance = 500\<rparr>, \<lparr>w_UserID = 2, w_Balance = 350\<rparr>]\<rparr>"

text \<open>\<open>ledger\<close> after a transfer of 200 from the first user to the second.\<close>

definition ledger_t1 :: db where
  "ledger_t1 =
     ledger\<lparr>wallets := [\<lparr>w_UserID = 1, w_Balance = 300\<rparr>, \<lparr>w_UserID = 2, w_Balance = 500\<rparr>],
            transactions := transactions ledger @
              [\<lparr>t_UserID = 1, t_Type = TransactionTypeTransfer, t_Amount = 200,
                t_Description = ''Transfer to bob'', t_Status = TransactionStatusCompleted,
                t_Reference = ''t1'', t_FromUserID = Some 1, t_ToUserID = Some 2\<rparr>],
            wallet_log := [ReadWallet 1, ReadWallet 2, WriteBalance 1, WriteBalance 2]\<rparr>"

text \<open>
  The scenario of the specification: two accounts are created, the first is funded with
  10000, 2000 are withdrawn from it and 3000 transferred to the second. \<open>scenario_db\<close>
  is the store it leaves.
\<close>

definition scenario :: "request list" where
  "scenario = [ReqCreateUser 1 ''ann'' ''ann@example.com'',
               ReqCreateUser 2 ''bob'' ''bob@example.com'',
               ReqFund 1 10000 ''f1'', ReqWithdraw 1 2000 ''w1'', ReqTransfer 1 2 3000 ''t1'']"

definition scenario_db :: db where
  "scenario_db =
     \<lparr>users = [\<lparr>u_ID = 1, u_Name = ''ann'', u_Email = ''ann@example.com''\<rparr>,
               \<lparr>u_ID = 2, u_Name = ''bob'', u_Email = ''bob@example.com''\<rparr>],
      wallets = [\<lparr>w_UserID = 1, w_Balance = 5000\<rparr>, \<lparr>w_UserID = 2, w_Balance = 3000\<rparr>],
      transactions =
        [\<lparr>t_UserID = 1, t_Type = TransactionTypeCredit, t_Amount = 10000,
          t_Description = ''Wallet funding'', t_Status = TransactionStatusCompleted,
          t_Reference = ''f1'', t_FromUserID = None, t_ToUserID = None\<rparr>,
         \<lparr>t_UserID = 1, t_Type = TransactionTypeDebit, t_Amount = 2000,
          t_Description = ''Wallet withdrawal'', t_Status = TransactionStatusCompleted,
          t_Reference = ''w1'', t_FromUserID = None, t_ToUserID = None\<rparr>,
         \<lparr>t_UserID = 1, t_Type = TransactionTypeTransfer, t_Amount = 3000,
          t_Description = ''Transfer to bob'', t_Status = TransactionStatusCompleted,
          t_Reference = ''t1'', t_FromUserID = Some 1, t_ToUserID = Some 2\<rparr>],
      wallet_log = [InsertWallet 1, InsertWallet 2, ReadWallet 1, WriteBalance 1,
                    ReadWallet 1, WriteBalance 1,
                    ReadWallet 1, ReadWallet 2, WriteBalance 1, WriteBalance 2]\<rparr>"

text \<open>
  Two fundings of the largest \<open>int64\<close> to one account, and a small one to another;
  \<open>overfunded_db\<close> is the store they leave.
\<close>

definition overfunded :: "request list" where
  "overfunded = [ReqCreateUser 1 ''ann'' ''ann@example.com'',
                 ReqCreateUser 2 ''bob'' ''bob@example.com'',
                 ReqFund 1 9223372036854775807 ''f1'', ReqFund 1 9223372036854775807 ''f2'',
                 ReqFund 2 5 ''f3'']"

definition overfunded_db :: db where
  "overfunded_db =
     \<lparr>users = [\<lparr>u_ID = 1, u_Name = ''ann'', u_Email = ''ann@example.com''\<rparr>,
               \<lparr>u_ID = 2, u_Name = ''bob'', u_Email = ''bob@example.com''\<rparr>],
      wallets = [\<lparr>w_UserID = 1, w_Balance = - 2\<rparr>, \<lparr>w_UserID = 2, w_Balance = 5\<rparr>],
      transactions =
        [\<lparr>t_UserID = 1, t_Type = TransactionTypeCredit, t_Amount = 9223372036854775807,
          t_Description = ''Wallet funding'', t_Status = TransactionStatusCompleted,
          t_Reference = ''f1'', t_FromUserID = None, t_ToUserID = None\<rparr>,
         \<lparr>t_UserID = 1, t_Type = TransactionTypeCredit, t_Amount = 9223372036854775807,
          t_Description = ''Wallet funding'', t_Status = TransactionStatusCompleted,
          t_Reference = ''f2'', t_FromUserID = None, t_ToUserID = None\<rparr>,
         \<lparr>t_UserID = 2, t_Type = TransactionTypeCredit, t_Amount = 5,
          t_Description = ''Wallet funding'', t_Status = TransactionStatusCompleted,
          t_Reference = ''f3'', t_FromUserID = None, t_ToUserID = None\<rparr>],
      wallet_log = [InsertWallet 1, InsertWallet 2, ReadWallet 1, WriteBalance 1,
                    ReadWallet 1, WriteBalance 1, ReadWallet 2, WriteBalance 2]\<rparr>"

section \<open>Basic facts\<close>

lemmas repo_defs = First_def User_GetByID_def User_GetByEmail_def User_Create_def
  Wallet_Create_def Wallet_GetByUserID_def Wallet_UpdateBalance_def Wallet_GetAllWallets_def
  Transaction_Create_def Transaction_GetByReference_def Rollback_def

lemmas usecase_defs = FundWallet_def FundWallet_checks_def FundWallet_unit_def
  WithdrawFunds_def WithdrawFunds_checks_def WithdrawFunds_unit_def
  TransferFunds_def TransferFunds_checks_def TransferFunds_unit_def

lemmas eval_defs = ledger_def ledger_edited_def ledger_t1_def empty_db_def repo_defs usecase_defs Let_def
  word_sle_eq word_sless_alt

lemma not_sle_zero: "0 <s (a::int64) \<Longrightarrow> \<not> a \<le>s 0"
  by (simp add: signed.not_le)

lemma sint_minus_fits:
  "fits_int64 (sint (a::int64) - sint b) \<Longrightarrow> sint (a - b) = sint a - sint b"
  by (simp add: fits_int64_def sint_word_ariths signed_take_bit_int_eq_self)

lemma sint_plus_fits:
  "fits_int64 (sint (a::int64) + sint b) \<Longrightarrow> sint (a + b) = sint a + sint b"
  by (simp add: fits_int64_def sint_word_ariths signed_take_bit_int_eq_self)

lemma sint_int64_bounds: "- (2 ^ 63) \<le> sint (a::int64) \<and> sint a < 2 ^ 63"
  using sint_ge [of a] sint_lt [of a] by simp


lemma FundWallet_unit_Inr:
  assumes "FundWallet_unit s u amount ref = (Inr t, s')"
  shows "\<exists>w. find (\<lambda>w. w_UserID w = u) (wallets s) = Some w
           \<and> (\<forall>x \<in> set (transactions s). t_Reference x \<noteq> ref)
           \<and> users s' = users s
           \<and> transactions s' = transactions s @ [t]
           \<and> wallets s' = map (\<lambda>x. if w_UserID x = u then x\<lparr>w_Balance := w_Balance w + amount\<rparr> else x) (wallets s)
           \<and> wallet_log s' = wallet_log s @ [ReadWallet u, WriteBalance u]
           \<and> t_Type t = TransactionTypeCredit \<and> t_FromUserID t = None \<and> t_ToUserID t = None"
  using assms
  by (auto simp: FundWallet_unit_def repo_defs Let_def split: option.splits if_splits)

lemma FundWallet_unit_Inl:
  assumes "FundWallet_unit s u amount ref = (Inl e, s')"
  shows "users s' = users s \<and> wallets s' = wallets s \<and> transactions s' = transactions s"
  using assms
  by (auto simp: FundWallet_unit_def repo_defs Let_def split: option.splits if_splits)

lemma WithdrawFunds_unit_Inr:
  assumes "WithdrawFunds_unit s u amount ref = (Inr t, s')"
  shows "\<exists>w. find (\<lambda>w. w_UserID w = u) (wallets s) = Some w
           \<and> \<not> w_Balance w <s amount
           \<and> (\<forall>x \<in> set (transactions s). t_Reference x \<noteq> ref)
           \<and> users s' = users s
           \<and> transactions s' = transactions s @ [t]
           \<and> wallets s' = map (\<lambda>x. if w_UserID x = u then x\<lparr>w_Balance := w_Balance w - amount\<rparr> else x) (wallets s)
           \<and> wallet_log s' = wallet_log s @ [ReadWallet u, WriteBalance u]
           \<and> t_Type t = TransactionTypeDebit \<and> t_FromUserID t = None \<and> t_ToUserID t = None"
  using assms
  by (auto simp: WithdrawFunds_unit_def repo_defs Let_def split: option.splits if_splits)

lemma WithdrawFunds_unit_Inl:
  assumes "WithdrawFunds_unit s u amount ref = (Inl e, s')"
  shows "users s' = users s \<and> wallets s' = wallets s \<and> transactions s' = transactions s"
  using assms
  by (auto simp: WithdrawFunds_unit_def repo_defs Let_def split: option.splits if_splits)

lemma TransferFunds_unit_Inr:
  assumes "TransferFunds_unit s a b toUser amount ref = (Inr t, s')"
  shows "\<exists>fw tw. find (\<lambda>w. w_UserID w = a) (wallets s) = Some fw
           \<and> find (\<lambda>w. w_UserID w = b) (wallets s) = Some tw
           \<and> \<not> w_Balance fw <s amount
           \<and> (\<forall>x \<in> set (transactions s). t_Reference x \<noteq> ref)
           \<and> users s' = users s
           \<and> transactions s' = transactions s @ [t]
           \<and> wallets s' =
               map (\<lambda>x. if w_UserID x = b then x\<lparr>w_Balance := w_Balance tw + amount\<rparr> else x)
                 (map (\<lambda>x. if w_UserID x = a then x\<lparr>w_Balance := w_Balance fw - amount\<rparr> else x)
                    (wallets s))
           \<and> wallet_log s' =
               wallet_log s @ [ReadWallet a, ReadWallet b, WriteBalance a, WriteBalance b]
           \<and> t_Type t = TransactionTypeTransfer \<and> t_UserID t = a
           \<and> t_FromUserID t = Some a \<and> t_ToUserID t = Some b"
  using assms
  by (auto simp: TransferFunds_unit_def repo_defs Let_def split: option.splits if_splits)

lemma TransferFunds_unit_Inl:
  assumes "TransferFunds_unit s a b toUser amount ref = (Inl e, s')"
  shows "users s' = users s \<and> wallets s' = wallets s \<and> transactions s' = transactions s"
  using assms
  by (auto simp: TransferFunds_unit_def repo_defs Let_def split: option.splits if_splits)

lemma checks_None_fresh:
  "FundWallet_checks s u amount ref = None \<Longrightarrow> \<not> amount \<le>s 0"
  "WithdrawFunds_checks s u amount ref = None \<Longrightarrow> \<not> amount \<le>s 0"
  by (auto simp: FundWallet_checks_def WithdrawFunds_checks_def split: if_splits)

lemma TransferFunds_checks_Inr:
  "TransferFunds_checks s a b amount ref = Inr toUser \<Longrightarrow>
     \<not> amount \<le>s 0 \<and> a \<noteq> b \<and> Transaction_GetByReference s ref = Inl ErrRecordNotFound"
  by (auto simp: TransferFunds_checks_def split: if_splits sum.splits)

lemma racing_same:
  "FundWallet_racing s s = FundWallet s"
  "WithdrawFunds_racing s s = WithdrawFunds s"
  "TransferFunds_racing s s = TransferFunds s"
  by (auto simp: fun_eq_iff FundWallet_racing_def FundWallet_def WithdrawFunds_racing_def
      WithdrawFunds_def TransferFunds_racing_def TransferFunds_def)


lemma unknown_user_fund_withdraw:
  assumes "0 <s amount"
    and "Transaction_GetByReference s reference = Inl ErrRecordNotFound"
    and "User_GetByID s userID = Inl ErrRecordNotFound"
  shows "FundWallet s userID amount reference = (Inl ErrUserNotFound, s)"
    and "WithdrawFunds s userID amount reference = (Inl ErrUserNotFound, s)"
  using assms
  by (simp_all add: FundWallet_def FundWallet_checks_def WithdrawFunds_def
      WithdrawFunds_checks_def not_sle_zero)

lemma First_Inl: "First P rows = Inl e \<Longrightarrow> e = ErrRecordNotFound"
  by (simp add: First_def split: option.splits)

lemma unknown_user_transfer:
  assumes "0 <s amount" and "fromUserID \<noteq> toUserID"
    and "Transaction_GetByReference s reference = Inl ErrRecordNotFound"
    and "User_GetByID s fromUserID = Inl ErrRecordNotFound
         \<or> User_GetByID s toUserID = Inl ErrRecordNotFound"
  shows "\<exists>m. TransferFunds s fromUserID toUserID amount reference = (Inl (Errorf m), s)"
  using assms
  by (auto simp: TransferFunds_def TransferFunds_checks_def not_sle_zero User_GetByID_def
      split: sum.splits dest: First_Inl)

lemma reconcile_loop_results:
  "r \<in> set (reconcile_loop getSum ws acc) \<Longrightarrow>
     r \<in> set acc \<or> (r_Difference r = r_StoredBalance r - r_CalculatedBalance r
                     \<and> (r_HasMismatch r \<longleftrightarrow> r_Difference r \<noteq> 0))"
proof (induction ws arbitrary: acc)
  case Nil
  then show ?case by simp
next
  case (Cons w ws)
  show ?case
  proof (cases "getSum (w_UserID w)")
    case (Inl e)
    with Cons show ?thesis by simp
  next
    case (Inr c)
    with Cons.prems have "r \<in> set (reconcile_loop getSum ws
        (acc @ [\<lparr>r_UserID = w_UserID w, r_StoredBalance = w_Balance w, r_CalculatedBalance = c,
                  r_Difference = w_Balance w - c, r_HasMismatch = (w_Balance w - c \<noteq> 0)\<rparr>]))"
      by (simp add: Let_def)
    from Cons.IH [OF this] show ?thesis by auto
  qed
qed

lemmas sum_defs = GetUserTransactionSum_def sum_where_def sum_case_def fits_int64_def
  RunReconciliation_def

lemma RunReconciliation_ledger_edited:
  "RunReconciliation ledger_edited =
     Inr [\<lparr>r_UserID = 1, r_StoredBalance = 500, r_CalculatedBalance = 500, r_Difference = 0,
           r_HasMismatch = False\<rparr>,
          \<lparr>r_UserID = 2, r_StoredBalance = 350, r_CalculatedBalance = 300, r_Difference = 50,
           r_HasMismatch = True\<rparr>]"
  by (simp add: eval_defs sum_defs)

section \<open>Balances stay non-negative while credits fit\<close>

lemma credit_nonneg:
  assumes "0 \<le>s (b::int64)" and "\<not> amount \<le>s 0" and "sint b + sint amount < 2 ^ 63"
  shows "0 \<le>s b + amount"
proof -
  from assms(1,2) have "0 \<le> sint b" "0 < sint amount"
    by (simp_all add: word_sle_eq)
  with assms(3) have "fits_int64 (sint b + sint amount)" by (simp add: fits_int64_def)
  then have "sint (b + amount) = sint b + sint amount" by (rule sint_plus_fits)
  with \<open>0 \<le> sint b\<close> \<open>0 < sint amount\<close> show ?thesis by (simp add: word_sle_eq)
qed

lemma debit_nonneg:
  assumes "\<not> (b::int64) <s amount" and "\<not> amount \<le>s 0"
  shows "0 \<le>s b - amount"
proof -
  from assms have le: "sint amount \<le> sint b" "0 < sint amount"
    by (simp_all add: word_sle_eq word_sless_alt)
  with sint_int64_bounds [of b] have "fits_int64 (sint b - sint amount)"
    by (simp add: fits_int64_def)
  then have "sint (b - amount) = sint b - sint amount" by (rule sint_minus_fits)
  with le show ?thesis by (simp add: word_sle_eq)
qed

lemma balances_nonneg_update:
  assumes "balances_nonneg s" and "wallets s' =
      map (\<lambda>x. if w_UserID x = u then x\<lparr>w_Balance := nb\<rparr> else x) (wallets s)"
    and "0 \<le>s nb"
  shows "balances_nonneg s'"
  using assms by (auto simp: balances_nonneg_def)

lemma balances_nonneg_same:
  "balances_nonneg s \<Longrightarrow> wallets s' = wallets s \<Longrightarrow> balances_nonneg s'"
  by (simp add: balances_nonneg_def)

lemma find_in_set: "find P xs = Some x \<Longrightarrow> x \<in> set xs \<and> P x"
  by (auto simp: find_Some_iff)

lemma FundWallet_nonneg:
  assumes inv: "balances_nonneg s" and fits: "credit_fits s u amount"
  shows "balances_nonneg (snd (FundWallet s u amount ref))"
proof (cases "FundWallet_checks s u amount ref")
  case (Some r)
  with inv show ?thesis by (simp add: FundWallet_def)
next
  case None
  then have pos: "\<not> amount \<le>s 0" by (rule checks_None_fresh)
  obtain r s' where rs: "FundWallet_unit s u amount ref = (r, s')" by (cases "FundWallet_unit s u amount ref")
  with None have eq: "snd (FundWallet s u amount ref) = s'" by (simp add: FundWallet_def)
  show ?thesis
  proof (cases r)
    case (Inl e)
    with rs FundWallet_unit_Inl [of s u amount ref e s'] inv eq show ?thesis
      by (simp add: balances_nonneg_same)
  next
    case (Inr t)
    with rs have "FundWallet_unit s u amount ref = (Inr t, s')" by simp
    from FundWallet_unit_Inr [OF this] obtain w where
      w: "find (\<lambda>w. w_UserID w = u) (wallets s) = Some w"
      and ws: "wallets s' =
        map (\<lambda>x. if w_UserID x = u then x\<lparr>w_Balance := w_Balance w + amount\<rparr> else x) (wallets s)"
      by blast
    from find_in_set [OF w] inv fits have "0 \<le>s w_Balance w"
      and "sint (w_Balance w) + sint amount < 2 ^ 63"
      by (auto simp: balances_nonneg_def credit_fits_def)
    with pos have "0 \<le>s w_Balance w + amount" by (simp add: credit_nonneg)
    from balances_nonneg_update [OF inv ws this] eq show ?thesis by simp
  qed
qed

lemma WithdrawFunds_nonneg:
  assumes inv: "balances_nonneg s"
  shows "balances_nonneg (snd (WithdrawFunds s u amount ref))"
proof (cases "WithdrawFunds_checks s u amount ref")
  case (Some r)
  with inv show ?thesis by (simp add: WithdrawFunds_def)
next
  case None
  then have pos: "\<not> amount \<le>s 0" by (rule checks_None_fresh)
  obtain r s' where rs: "WithdrawFunds_unit s u amount ref = (r, s')"
    by (cases "WithdrawFunds_unit s u amount ref")
  with None have eq: "snd (WithdrawFunds s u amount ref) = s'" by (simp add: WithdrawFunds_def)
  show ?thesis
  proof (cases r)
    case (Inl e)
    with rs WithdrawFunds_unit_Inl [of s u amount ref e s'] inv eq show ?thesis
      by (simp add: balances_nonneg_same)
  next
    case (Inr t)
    with rs have "WithdrawFunds_unit s u amount ref = (Inr t, s')" by simp
    from WithdrawFunds_unit_Inr [OF this] obtain w where
      w: "find (\<lambda>w. w_UserID w = u) (wallets s) = Some w"
      and enough: "\<not> w_Balance w <s amount"
      and ws: "wallets s' =
        map (\<lambda>x. if w_UserID x = u then x\<lparr>w_Balance := w_Balance w - amount\<rparr> else x) (wallets s)"
      by blast
    from enough pos have "0 \<le>s w_Balance w - amount" by (rule debit_nonneg)
    from balances_nonneg_update [OF inv ws this] eq show ?thesis by simp
  qed
qed

lemma TransferFunds_nonneg:
  assumes inv: "balances_nonneg s" and fits: "credit_fits s b amount"
  shows "balances_nonneg (snd (TransferFunds s a b amount ref))"
proof (cases "TransferFunds_checks s a b amount ref")
  case (Inl r)
  with inv show ?thesis by (simp add: TransferFunds_def)
next
  case (Inr toUser)
  then have pos: "\<not> amount \<le>s 0" by (simp add: TransferFunds_checks_Inr)
  obtain r s' where rs: "TransferFunds_unit s a b toUser amount ref = (r, s')"
    by (cases "TransferFunds_unit s a b toUser amount ref")
  with Inr have eq: "snd (TransferFunds s a b amount ref) = s'" by (simp add: TransferFunds_def)
  show ?thesis
  proof (cases r)
    case (Inl e)
    with rs TransferFunds_unit_Inl [of s a b toUser amount ref e s'] inv eq show ?thesis
      by (simp add: balances_nonneg_same)
  next
    case (Inr t)
    with rs have "TransferFunds_unit s a b toUser amount ref = (Inr t, s')" by simp
    from TransferFunds_unit_Inr [OF this] obtain fw tw where
      fw: "find (\<lambda>w. w_UserID w = a) (wallets s) = Some fw"
      and tw: "find (\<lambda>w. w_UserID w = b) (wallets s) = Some tw"
      and enough: "\<not> w_Balance fw <s amount"
      and ws: "wallets s' =
               map (\<lambda>x. if w_UserID x = b then x\<lparr>w_Balance := w_Balance tw + amount\<rparr> else x)
                 (map (\<lambda>x. if w_UserID x = a then x\<lparr>w_Balance := w_Balance fw - amount\<rparr> else x)
                    (wallets s))"
      by blast
    from enough pos have d: "0 \<le>s w_Balance fw - amount" by (rule debit_nonneg)
    from find_in_set [OF tw] inv fits have "0 \<le>s w_Balance tw"
      and "sint (w_Balance tw) + sint amount < 2 ^ 63"
      by (auto simp: balances_nonneg_def credit_fits_def)
    with pos have c: "0 \<le>s w_Balance tw + amount" by (simp add: credit_nonneg)
    from inv ws c d eq show ?thesis by (auto simp: balances_nonneg_def)
  qed
qed

lemma CreateUser_wallets:
  "wallets (snd (CreateUser s newID name email)) = wallets s
   \<or> wallets (snd (CreateUser s newID name email)) =
       wallets s @ [\<lparr>w_UserID = newID, w_Balance = 0\<rparr>]"
  by (auto simp: CreateUser_def repo_defs Let_def split: option.splits sum.splits)

lemma CreateUser_nonneg:
  assumes "balances_nonneg s"
  shows "balances_nonneg (snd (CreateUser s newID name email))"
  using CreateUser_wallets [of s newID name email] assms
  by (auto simp: balances_nonneg_def word_sle_eq)

lemma step_nonneg:
  "balances_nonneg s \<Longrightarrow> request_fits s r \<Longrightarrow> balances_nonneg (step s r)"
  by (cases r) (simp_all add: CreateUser_nonneg FundWallet_nonneg WithdrawFunds_nonneg
      TransferFunds_nonneg)

lemma run_nonneg:
  "balances_nonneg s \<Longrightarrow> run_fits s rs \<Longrightarrow> balances_nonneg (run s rs)"
  by (induction rs arbitrary: s) (simp_all add: step_nonneg)

lemma find_append_if:
  "find P (xs @ ys) = (case find P xs of None \<Rightarrow> find P ys | Some x \<Rightarrow> Some x)"
  by (induction xs) auto

lemma CreateUser_balance_zero:
  assumes "fst (CreateUser s newID name email) = Inr user"
  shows "u_ID user = newID \<and> balance_of (snd (CreateUser s newID name email)) newID = Some 0"
proof -
  from assms have e: "find (\<lambda>u. u_Email u = email) (users s) = None"
    by (auto simp: CreateUser_def User_GetByEmail_def First_def split: option.splits)
  from assms e have u: "\<forall>u \<in> set (users s). u_ID u \<noteq> newID"
    by (auto simp: CreateUser_def repo_defs Let_def split: if_splits)
  from assms e u have w: "\<forall>w \<in> set (wallets s). w_UserID w \<noteq> newID"
    by (auto simp: CreateUser_def repo_defs Let_def split: if_splits)
  from u have fu: "find (\<lambda>u. u_ID u = newID) (users s) = None"
    by (simp add: find_None_iff)
  from w have fw: "find (\<lambda>w. w_UserID w = newID) (wallets s) = None"
    by (simp add: find_None_iff)
  from e have e': "\<forall>u \<in> set (users s). u_Email u \<noteq> email"
    by (auto simp: find_None_iff)
  from e e' u w have "CreateUser s newID name email =
      (Inr \<lparr>u_ID = newID, u_Name = name, u_Email = email\<rparr>,
       s\<lparr>users := users s @ [\<lparr>u_ID = newID, u_Name = name, u_Email = email\<rparr>],
         wallets := wallets s @ [\<lparr>w_UserID = newID, w_Balance = 0\<rparr>],
         wallet_log := wallet_log s @ [InsertWallet newID]\<rparr>)"
    by (simp add: CreateUser_def repo_defs Let_def find_append_if fu)
  with assms fw show ?thesis by (auto simp: balance_of_def find_append_if)
qed

lemma run_scenario: "run empty_db scenario = scenario_db"
  by (simp add: scenario_def scenario_db_def CreateUser_def eval_defs)

lemma run_fits_scenario: "run_fits empty_db scenario"
  by (simp add: scenario_def CreateUser_def eval_defs credit_fits_def)

section \<open>The sum of the store and the derived balance\<close>

lemma sum_case_eq_contribution:
  assumes "entry_wf t" and "sum_where account t"
  shows "sum_case account t = signed_contribution account t"
  using assms
  by (cases "t_Type t") (auto simp: entry_wf_def sum_where_def sum_case_def signed_contribution_def)

lemma sum_where_eq_touches:
  "sum_where account t \<longleftrightarrow> t_Status t = TransactionStatusCompleted \<and> touches t account"
  by (auto simp: sum_where_def touches_def)

lemma sum_eq_derived_balance:
  assumes "\<forall>t \<in> set entries. entry_wf t"
  shows "sum_list (map (sum_case account) (filter (sum_where account) entries)) =
         derived_balance entries account"
proof -
  have f: "filter (sum_where account) entries =
      filter (\<lambda>t. t_Status t = TransactionStatusCompleted \<and> touches t account) entries"
    by (rule filter_cong) (simp_all add: sum_where_eq_touches)
  have "map (sum_case account) (filter (sum_where account) entries) =
      map (signed_contribution account) (filter (sum_where account) entries)"
    using assms by (intro map_cong) (simp_all add: sum_case_eq_contribution)
  then have "sum_list (map (sum_case account) (filter (sum_where account) entries)) =
      sum_list (map (signed_contribution account) (filter (sum_where account) entries))"
    by (rule arg_cong)
  also have "\<dots> = derived_balance entries account"
    unfolding derived_balance_def f ..
  finally show ?thesis .
qed

lemma GetUserTransactionSum_derived:
  assumes "\<forall>t \<in> set (transactions s). entry_wf t"
  shows "GetUserTransactionSum s account =
     (if fits_int64 (derived_balance (transactions s) account)
      then Inr (word_of_int (derived_balance (transactions s) account))
      else Inl ErrOutOfRange)"
  by (simp add: GetUserTransactionSum_def sum_eq_derived_balance [OF assms])

lemma reconcile_loop_concat:
  "reconcile_loop getSum ws acc =
     acc @ concat (map (\<lambda>w. case getSum (w_UserID w) of
                               Inl err \<Rightarrow> []
                             | Inr c \<Rightarrow> [\<lparr>r_UserID = w_UserID w, r_StoredBalance = w_Balance w,
                                          r_CalculatedBalance = c,
                                          r_Difference = w_Balance w - c,
                                          r_HasMismatch = (w_Balance w - c \<noteq> 0)\<rparr>]) ws)"
  by (induction ws arbitrary: acc) (auto simp: Let_def split: sum.splits)

lemma sint_word_of_int_fits: "fits_int64 d \<Longrightarrow> sint (word_of_int d :: int64) = d"
  by (simp add: fits_int64_def sint_sbintrunc' signed_take_bit_int_eq_self)

lemma mismatch_iff:
  assumes "fits_int64 d"
  shows "(b = (word_of_int d :: int64)) \<longleftrightarrow> sint b = d"
  using sint_word_of_int_fits [OF assms] by auto

lemma RunReconciliation_refines:
  assumes "list_all entry_wf (transactions s)"
  shows "RunReconciliation s = Inr (reconcile_spec s)"
proof -
  from assms have wf: "\<forall>t \<in> set (transactions s). entry_wf t"
    by (simp add: list_all_iff)
  have "(case GetUserTransactionSum s (w_UserID w) of
           Inl err \<Rightarrow> []
         | Inr c \<Rightarrow> [\<lparr>r_UserID = w_UserID w, r_StoredBalance = w_Balance w,
                      r_CalculatedBalance = c, r_Difference = w_Balance w - c,
                      r_HasMismatch = (w_Balance w - c \<noteq> 0)\<rparr>]) =
        reconcile_account (transactions s) w" for w
    by (simp add: GetUserTransactionSum_derived [OF wf] reconcile_account_def Let_def
        mismatch_iff)
  then show ?thesis
    by (simp add: RunReconciliation_def Wallet_GetAllWallets_def reconcile_loop_concat
        reconcile_spec_def)
qed

lemma entries_wf_step: "entries_wf s \<Longrightarrow> entries_wf (step s r)"
proof (cases r)
  case (ReqCreateUser newID name email)
  have "transactions (snd (CreateUser s newID name email)) = transactions s"
    by (auto simp: CreateUser_def repo_defs Let_def split: option.splits sum.splits)
  then show "entries_wf s \<Longrightarrow> entries_wf (step s r)"
    by (simp add: ReqCreateUser entries_wf_def)
next
  case (ReqFund u amount ref)
  obtain x s' where x: "FundWallet_unit s u amount ref = (x, s')"
    by (cases "FundWallet_unit s u amount ref")
  then have "transactions s' = transactions s \<or> (\<exists>t. transactions s' = transactions s @ [t] \<and> entry_wf t)"
    using FundWallet_unit_Inl [of s u amount ref _ s'] FundWallet_unit_Inr [of s u amount ref _ s']
    by (cases x) (auto simp: entry_wf_def)
  with x show "entries_wf s \<Longrightarrow> entries_wf (step s r)"
    by (auto simp: ReqFund entries_wf_def FundWallet_def split: option.splits)
next
  case (ReqWithdraw u amount ref)
  obtain x s' where x: "WithdrawFunds_unit s u amount ref = (x, s')"
    by (cases "WithdrawFunds_unit s u amount ref")
  then have "transactions s' = transactions s \<or> (\<exists>t. transactions s' = transactions s @ [t] \<and> entry_wf t)"
    using WithdrawFunds_unit_Inl [of s u amount ref _ s']
      WithdrawFunds_unit_Inr [of s u amount ref _ s']
    by (cases x) (auto simp: entry_wf_def)
  with x show "entries_wf s \<Longrightarrow> entries_wf (step s r)"
    by (auto simp: ReqWithdraw entries_wf_def WithdrawFunds_def split: option.splits)
next
  case (ReqTransfer a b amount ref)
  show "entries_wf s \<Longrightarrow> entries_wf (step s r)"
  proof (cases "TransferFunds_checks s a b amount ref")
    case (Inl y)
    then show "entries_wf s \<Longrightarrow> entries_wf (step s r)"
      by (simp add: ReqTransfer TransferFunds_def)
  next
    case (Inr toUser)
    then have ne: "a \<noteq> b" by (simp add: TransferFunds_checks_Inr)
    obtain x s' where x: "TransferFunds_unit s a b toUser amount ref = (x, s')"
      by (cases "TransferFunds_unit s a b toUser amount ref")
    then have "transactions s' = transactions s \<or> (\<exists>t. transactions s' = transactions s @ [t] \<and> entry_wf t)"
      using TransferFunds_unit_Inl [of s a b toUser amount ref _ s']
        TransferFunds_unit_Inr [of s a b toUser amount ref _ s'] ne
      by (cases x) (auto simp: entry_wf_def)
    with x Inr show "entries_wf s \<Longrightarrow> entries_wf (step s r)"
      by (auto simp: ReqTransfer entries_wf_def TransferFunds_def)
  qed
qed

lemma entries_wf_run: "entries_wf s \<Longrightarrow> entries_wf (run s rs)"
  by (induction rs arbitrary: s) (simp_all add: entries_wf_step)

lemma entries_wf_reachable: "entries_wf (run empty_db rs)"
  by (rule entries_wf_run) (simp add: entries_wf_def empty_db_def)

lemma run_overfunded: "run empty_db overfunded = overfunded_db"
  by (simp add: overfunded_def overfunded_db_def CreateUser_def eval_defs)

lemma reconcile_spec_scenario:
  "reconcile_spec scenario_db =
     [\<lparr>r_UserID = 1, r_StoredBalance = 5000, r_CalculatedBalance = 5000, r_Difference = 0,
       r_HasMismatch = False\<rparr>,
      \<lparr>r_UserID = 2, r_StoredBalance = 3000, r_CalculatedBalance = 3000, r_Difference = 0,
       r_HasMismatch = False\<rparr>]"
  by (simp add: reconcile_spec_def reconcile_account_def derived_balance_def touches_def
      signed_contribution_def fits_int64_def scenario_db_def Let_def)

lemma reconcile_spec_overfunded:
  "reconcile_spec overfunded_db =
     [\<lparr>r_UserID = 2, r_StoredBalance = 5, r_CalculatedBalance = 5, r_Difference = 0,
       r_HasMismatch = False\<rparr>]"
  by (simp add: reconcile_spec_def reconcile_account_def derived_balance_def touches_def
      signed_contribution_def fits_int64_def overfunded_db_def Let_def)

section \<open>Idempotency\<close>





section \<open>Transfers\<close>






section \<open>Insufficient funds\<close>

text \<open>
  C4. A withdrawal, or a transfer to another existing user, of more than the balance of
  the source fails with \<open>ErrInsufficientFunds\<close>, and the wallets and the entries are as
  before. The request is one that reaches the check of the funds: its amount is positive,
  its reference is new and its user exists.
\<close>

theorem insufficient_funds_rejected:
  assumes "0 <s amount"
    and "Transaction_GetByReference s reference = Inl ErrRecordNotFound"
    and "User_GetByID s userID = Inr user"
    and "balance_of s userID = Some b" and "b <s amount"
  shows "fst (WithdrawFunds s userID amount reference) = Inl ErrInsufficientFunds
       \<and> wallets (snd (WithdrawFunds s userID amount reference)) = wallets s
       \<and> transactions (snd (WithdrawFunds s userID amount reference)) = transactions s
       \<and> (\<forall>toUserID toUser. toUserID \<noteq> userID \<and> User_GetByID s toUserID = Inr toUser \<longrightarrow>
            fst (TransferFunds s userID toUserID amount reference) = Inl ErrInsufficientFunds
            \<and> wallets (snd (TransferFunds s userID toUserID amount reference)) = wallets s
            \<and> transactions (snd (TransferFunds s userID toUserID amount reference))
                = transactions s)"
proof -
  from assms(4) obtain w where w: "find (\<lambda>w. w_UserID w = userID) (wallets s) = Some w"
    and b: "w_Balance w = b"
    by (auto simp: balance_of_def)
  have wd: "WithdrawFunds s userID amount reference =
      (Inl ErrInsufficientFunds, s\<lparr>wallet_log := wallet_log s @ [ReadWallet userID]\<rparr>)"
    using assms(1,2,3,5) w b
    by (simp add: WithdrawFunds_def WithdrawFunds_checks_def WithdrawFunds_unit_def not_sle_zero
        Wallet_GetByUserID_def First_def Rollback_def)
  have tr: "TransferFunds s userID toUserID amount reference =
      (Inl ErrInsufficientFunds, s\<lparr>wallet_log := wallet_log s @ [ReadWallet userID]\<rparr>)"
    if "toUserID \<noteq> userID" and "User_GetByID s toUserID = Inr toUser" for toUserID toUser
    using assms(1,2,3,5) w b that
    by (auto simp: TransferFunds_def TransferFunds_checks_def TransferFunds_unit_def not_sle_zero
        Wallet_GetByUserID_def First_def Rollback_def)
  from wd tr show ?thesis by simp
qed

theorem insufficient_funds_rejected_witness:
  "(0::int64) <s 800
   \<and> Transaction_GetByReference ledger ''w1'' = Inl ErrRecordNotFound
   \<and> User_GetByID ledger 1 = Inr (hd (users ledger))
   \<and> balance_of ledger 1 = Some 500 \<and> (500::int64) <s 800
   \<and> fst (WithdrawFunds ledger 1 800 ''w1'') = Inl ErrInsufficientFunds
   \<and> wallets (snd (WithdrawFunds ledger 1 800 ''w1'')) = wallets ledger
   \<and> transactions (snd (WithdrawFunds ledger 1 800 ''w1'')) = transactions ledger
   \<and> fst (TransferFunds ledger 1 2 800 ''w1'') = Inl ErrInsufficientFunds
   \<and> wallets (snd (TransferFunds ledger 1 2 800 ''w1'')) = wallets ledger
   \<and> transactions (snd (TransferFunds ledger 1 2 800 ''w1'')) = transactions ledger"
proof -
  have h1: "(0::int64) <s 800" by (simp add: word_sless_alt)
  have h2: "Transaction_GetByReference ledger ''w1'' = Inl ErrRecordNotFound"
    by (simp add: eval_defs)
  have h3: "User_GetByID ledger 1 = Inr (hd (users ledger))" by (simp add: eval_defs)
  have h4: "balance_of ledger 1 = Some 500" by (simp add: balance_of_def ledger_def)
  have h5: "(500::int64) <s 800" by (simp add: word_sless_alt)
  have h6: "(2::uuid) \<noteq> 1 \<and> User_GetByID ledger 2 = Inr (last (users ledger))"
    by (simp add: eval_defs)
  from insufficient_funds_rejected [OF h1 h2 h3 h4 h5] h6 h1 h2 h3 h4 h5
  show ?thesis by blast
qed

section \<open>Entry creation under a race\<close>

text \<open>
  C5. When the entry cannot be created because another caller has committed an entry
  with the same reference since the checks, the unit of work is rolled back and the
  operation returns the failure \<open>failed to create transaction\<close> wrapping the store's
  error. The entry of the other caller is not fetched, and wallets and entries are left as
  that caller committed them.
\<close>

theorem uniqueness_violation_is_generic_failure:
  assumes "Transaction_GetByReference s reference = Inr existing"
    and "find (\<lambda>w. w_UserID w = userID) (wallets s) = Some w"
  shows "fst (FundWallet_unit s userID amount reference) =
           Inl (Wrapped ''failed to create transaction'' ErrDuplicatedKey)
       \<and> (\<not> w_Balance w <s amount \<longrightarrow>
            fst (WithdrawFunds_unit s userID amount reference) =
              Inl (Wrapped ''failed to create transaction'' ErrDuplicatedKey))
       \<and> (\<not> w_Balance w <s amount
            \<and> find (\<lambda>w. w_UserID w = toUserID) (wallets s) \<noteq> None \<longrightarrow>
            fst (TransferFunds_unit s userID toUserID toUser amount reference) =
              Inl (Wrapped ''failed to create transaction'' ErrDuplicatedKey))
       \<and> wallets (snd (FundWallet_unit s userID amount reference)) = wallets s
       \<and> transactions (snd (FundWallet_unit s userID amount reference)) = transactions s
       \<and> wallets (snd (WithdrawFunds_unit s userID amount reference)) = wallets s
       \<and> transactions (snd (WithdrawFunds_unit s userID amount reference)) = transactions s
       \<and> wallets (snd (TransferFunds_unit s userID toUserID toUser amount reference))
           = wallets s
       \<and> transactions (snd (TransferFunds_unit s userID toUserID toUser amount reference))
           = transactions s"
proof -
  from assms(1) have "\<exists>x \<in> set (transactions s). t_Reference x = reference"
    by (auto simp: Transaction_GetByReference_def First_def find_Some_iff split: option.splits)
  with assms(2) show ?thesis
    by (auto simp: FundWallet_unit_def WithdrawFunds_unit_def TransferFunds_unit_def repo_defs
        Let_def split: option.splits)
qed

theorem uniqueness_violation_is_generic_failure_witness:
  "Transaction_GetByReference ledger ''f1'' = Inr (hd (transactions ledger))
   \<and> find (\<lambda>w. w_UserID w = 1) (wallets ledger) = Some \<lparr>w_UserID = 1, w_Balance = 500\<rparr>
   \<and> \<not> (500::int64) <s 50
   \<and> find (\<lambda>w. w_UserID w = 2) (wallets ledger) \<noteq> None
   \<and> fst (FundWallet_unit ledger 1 50 ''f1'') =
        Inl (Wrapped ''failed to create transaction'' ErrDuplicatedKey)
   \<and> fst (WithdrawFunds_unit ledger 1 50 ''f1'') =
        Inl (Wrapped ''failed to create transaction'' ErrDuplicatedKey)
   \<and> fst (TransferFunds_unit ledger 1 2 (last (users ledger)) 50 ''f1'') =
        Inl (Wrapped ''failed to create transaction'' ErrDuplicatedKey)"
proof -
  have h1: "Transaction_GetByReference ledger ''f1'' = Inr (hd (transactions ledger))"
    by (simp add: eval_defs)
  have h2: "find (\<lambda>w. w_UserID w = 1) (wallets ledger) = Some \<lparr>w_UserID = 1, w_Balance = 500\<rparr>"
    by (simp add: ledger_def)
  have h3: "\<not> w_Balance \<lparr>w_UserID = 1, w_Balance = 500\<rparr> <s (50::int64)"
    by (simp add: word_sless_alt)
  have h4: "find (\<lambda>w. w_UserID w = 2) (wallets ledger) \<noteq> None"
    by (simp add: ledger_def)
  from uniqueness_violation_is_generic_failure
    [OF h1 h2, of 50 2 "last (users ledger)"] h1 h2 h3 h4
  show ?thesis by simp
qed

text \<open>
  A caller funds with reference \<open>r9\<close>; between its checks and its unit of work a second
  caller commits the same request. The first caller gets the failure, not the entry.
\<close>

theorem racing_duplicate_fails:
  "FundWallet_checks ledger 1 50 ''r9'' = None
   \<and> Transaction_GetByReference (snd (FundWallet ledger 1 50 ''r9'')) ''r9'' =
       Inr \<lparr>t_UserID = 1, t_Type = TransactionTypeCredit, t_Amount = 50,
            t_Description = ''Wallet funding'', t_Status = TransactionStatusCompleted,
            t_Reference = ''r9'', t_FromUserID = None, t_ToUserID = None\<rparr>
   \<and> fst (FundWallet_racing ledger (snd (FundWallet ledger 1 50 ''r9'')) 1 50 ''r9'') =
       Inl (Wrapped ''failed to create transaction'' ErrDuplicatedKey)"
  by (simp add: eval_defs FundWallet_racing_def)

section \<open>Unknown users\<close>

text \<open>
  C7. \<open>FundWallet\<close> and \<open>WithdrawFunds\<close> answer a new reference and an unknown user
  with \<open>ErrUserNotFound\<close> (lemma \<open>unknown_user_fund_withdraw\<close>). \<open>TransferFunds\<close> answers
  with \<open>fmt.Errorf("sender not found")\<close> or \<open>fmt.Errorf("recipient not found")\<close>, which are
  not \<open>ErrUserNotFound\<close>: the handler, which compares the error with \<open>ErrUserNotFound\<close>
  to send status 404, sends 500.
\<close>

theorem transfer_unknown_user_error:
  "fst (TransferFunds ledger 7 2 100 ''t7'') = Inl (Errorf ''sender not found'')
   \<and> fst (TransferFunds ledger 1 7 100 ''t7'') = Inl (Errorf ''recipient not found'')
   \<and> TransferFunds_error_status (Errorf ''sender not found'') = 500
   \<and> TransferFunds_error_status (Errorf ''recipient not found'') = 500
   \<and> TransferFunds_error_status ErrUserNotFound = 404
   \<and> fst (FundWallet ledger 7 100 ''t7'') = Inl ErrUserNotFound
   \<and> fst (WithdrawFunds ledger 7 100 ''t7'') = Inl ErrUserNotFound"
  by (simp add: eval_defs TransferFunds_error_status_def)

section \<open>Reconciliation results\<close>

text \<open>
  C10. Every result of \<open>RunReconciliation\<close> has \<open>Difference = StoredBalance -
  CalculatedBalance\<close> in \<open>int64\<close> arithmetic, and \<open>HasMismatch\<close> exactly when
  \<open>Difference\<close> is not 0. When the exact difference is an \<open>int64\<close>, \<open>Difference\<close> is
  positive exactly when the stored balance exceeds the calculated one.
\<close>

theorem reconciliation_result_fields:
  assumes "RunReconciliation s = Inr results" and "r \<in> set results"
  shows "r_Difference r = r_StoredBalance r - r_CalculatedBalance r
       \<and> (r_HasMismatch r \<longleftrightarrow> r_Difference r \<noteq> 0)
       \<and> (fits_int64 (sint (r_StoredBalance r) - sint (r_CalculatedBalance r)) \<longrightarrow>
            (0 <s r_Difference r \<longleftrightarrow> r_CalculatedBalance r <s r_StoredBalance r))"
proof -
  from assms have "r \<in> set (reconcile_loop (GetUserTransactionSum s) (wallets s) [])"
    by (auto simp: RunReconciliation_def Wallet_GetAllWallets_def)
  from reconcile_loop_results [OF this]
  have d: "r_Difference r = r_StoredBalance r - r_CalculatedBalance r"
    and m: "r_HasMismatch r \<longleftrightarrow> r_Difference r \<noteq> 0" by auto
  have "0 <s r_Difference r \<longleftrightarrow> r_CalculatedBalance r <s r_StoredBalance r"
    if "fits_int64 (sint (r_StoredBalance r) - sint (r_CalculatedBalance r))"
    using sint_minus_fits [OF that] d by (simp add: word_sless_alt)
  with d m show ?thesis by blast
qed

theorem reconciliation_result_fields_witness:
  "RunReconciliation ledger_edited =
     Inr [\<lparr>r_UserID = 1, r_StoredBalance = 500, r_CalculatedBalance = 500, r_Difference = 0,
           r_HasMismatch = False\<rparr>,
          \<lparr>r_UserID = 2, r_StoredBalance = 350, r_CalculatedBalance = 300, r_Difference = 50,
           r_HasMismatch = True\<rparr>]
   \<and> (50::int64) = 350 - 300 \<and> (50::int64) \<noteq> 0
   \<and> fits_int64 (sint (350::int64) - sint (300::int64))
   \<and> (0::int64) <s 50 \<and> (300::int64) <s 350"
proof -
  let ?r = "\<lparr>r_UserID = 2, r_StoredBalance = 350, r_CalculatedBalance = 300,
             r_Difference = 50, r_HasMismatch = True\<rparr>"
  note h1 = RunReconciliation_ledger_edited
  have h2: "?r \<in> set [\<lparr>r_UserID = 1, r_StoredBalance = 500, r_CalculatedBalance = 500,
        r_Difference = 0, r_HasMismatch = False\<rparr>, ?r]" by simp
  have fit: "fits_int64 (sint (350::int64) - sint (300::int64))" by (simp add: fits_int64_def)
  from reconciliation_result_fields [OF h1 h2] fit
  have "(50::int64) = 350 - 300 \<and> (50::int64) \<noteq> 0 \<and> (0::int64) <s 50 \<and> (300::int64) <s 350"
    by simp
  with h1 fit show ?thesis by blast
qed

section \<open>Non-negative balances\<close>

text \<open>
  C3. \<open>CreateUser\<close> creates the wallet with balance 0, a withdrawal and the debit of a
  transfer never commit a negative balance, and a credit (a funding, or the destination
  of a transfer) keeps the balance non-negative as long as balance plus amount is an
  \<open>int64\<close>. So along every sequence of operations whose credits fit, started in a store
  with no negative balance (the empty store is one), every stored balance is \<open>\<ge> 0\<close>.
\<close>

theorem balances_nonneg_while_credits_fit:
  assumes "balances_nonneg s" and "run_fits s rs"
  shows "balances_nonneg (run s rs)
       \<and> (\<forall>newID name email user.
            fst (CreateUser (run s rs) newID name email) = Inr user \<longrightarrow>
            balance_of (snd (CreateUser (run s rs) newID name email)) (u_ID user) = Some 0)"
  using run_nonneg [OF assms] CreateUser_balance_zero by blast

theorem balances_nonneg_while_credits_fit_witness:
  "balances_nonneg empty_db \<and> run_fits empty_db scenario
   \<and> balances_nonneg (run empty_db scenario)
   \<and> balance_of (run empty_db scenario) 1 = Some 5000
   \<and> balance_of (run empty_db scenario) 2 = Some 3000
   \<and> fst (CreateUser (run empty_db scenario) 3 ''cy'' ''cy@example.com'') =
        Inr \<lparr>u_ID = 3, u_Name = ''cy'', u_Email = ''cy@example.com''\<rparr>
   \<and> balance_of (snd (CreateUser (run empty_db scenario) 3 ''cy'' ''cy@example.com'')) 3 =
        Some 0"
proof -
  have h1: "balances_nonneg empty_db" by (simp add: balances_nonneg_def empty_db_def)
  note h2 = run_fits_scenario
  have h3: "fst (CreateUser (run empty_db scenario) 3 ''cy'' ''cy@example.com'') =
        Inr \<lparr>u_ID = 3, u_Name = ''cy'', u_Email = ''cy@example.com''\<rparr>"
    by (simp add: run_scenario scenario_db_def CreateUser_def repo_defs Let_def)
  have h4: "balance_of (run empty_db scenario) 1 = Some 5000
      \<and> balance_of (run empty_db scenario) 2 = Some 3000"
    by (simp add: run_scenario scenario_db_def balance_of_def)
  from balances_nonneg_while_credits_fit [OF h1 h2] h3
  have "balances_nonneg (run empty_db scenario)
      \<and> balance_of (snd (CreateUser (run empty_db scenario) 3 ''cy'' ''cy@example.com''))
          (u_ID \<lparr>u_ID = 3, u_Name = ''cy'', u_Email = ''cy@example.com''\<rparr>) = Some 0"
    by blast
  with h1 h2 h3 h4 show ?thesis by simp
qed

text \<open>
  Funding a new account with the largest \<open>int64\<close> and then with 1 wraps the balance
  around to the smallest \<open>int64\<close>, which is committed.
\<close>

theorem funding_overflow_goes_negative:
  "map_option sint
     (balance_of
        (run empty_db [ReqCreateUser 1 ''ann'' ''ann@example.com'',
                       ReqFund 1 9223372036854775807 ''f1'', ReqFund 1 1 ''f2''])
        1) = Some (- 9223372036854775808)
   \<and> \<not> balances_nonneg
        (run empty_db [ReqCreateUser 1 ''ann'' ''ann@example.com'',
                       ReqFund 1 9223372036854775807 ''f1'', ReqFund 1 1 ''f2''])"
  by (simp add: CreateUser_def eval_defs balance_of_def balances_nonneg_def)

section \<open>Reconciliation\<close>

text \<open>
  C8. \<open>RunReconciliation\<close> returns the reconciliation of the specification: for every
  wallet, the derived balance is the sum over the Completed entries touching the account
  of \<open>+amount\<close> for a Credit, \<open>-amount\<close> for a Debit, \<open>-amount\<close> for a Transfer out of
  it and \<open>+amount\<close> for a Transfer into it; the result carries the difference to the
  stored balance and the mismatch flag, set exactly when they differ; an account whose
  sum cannot be computed is left out and the run goes on. This holds for every store
  whose entries have the shape of the data model, and so for every store that the
  operations produce from the empty one. The loop skips an account on any error of the
  method that computes the sum.
\<close>

theorem reconciliation_matches_specification:
  "(list_all entry_wf (transactions s) \<longrightarrow> RunReconciliation s = Inr (reconcile_spec s))
   \<and> RunReconciliation (run empty_db rs) = Inr (reconcile_spec (run empty_db rs))
   \<and> reconcile_loop getSum ws [] =
       concat (map (\<lambda>w. case getSum (w_UserID w) of
                           Inl err \<Rightarrow> []
                         | Inr c \<Rightarrow> [\<lparr>r_UserID = w_UserID w, r_StoredBalance = w_Balance w,
                                      r_CalculatedBalance = c,
                                      r_Difference = w_Balance w - c,
                                      r_HasMismatch = (w_Balance w - c \<noteq> 0)\<rparr>]) ws)"
proof -
  have "list_all entry_wf (transactions (run empty_db rs))"
    using entries_wf_reachable [of rs] by (simp add: entries_wf_def)
  then have "RunReconciliation (run empty_db rs) = Inr (reconcile_spec (run empty_db rs))"
    by (rule RunReconciliation_refines)
  then show ?thesis
    by (simp add: RunReconciliation_refines reconcile_loop_concat)
qed

theorem reconciliation_matches_specification_witness:
  "list_all entry_wf (transactions scenario_db)
   \<and> RunReconciliation scenario_db =
       Inr [\<lparr>r_UserID = 1, r_StoredBalance = 5000, r_CalculatedBalance = 5000,
             r_Difference = 0, r_HasMismatch = False\<rparr>,
            \<lparr>r_UserID = 2, r_StoredBalance = 3000, r_CalculatedBalance = 3000,
             r_Difference = 0, r_HasMismatch = False\<rparr>]
   \<and> list_all entry_wf (transactions overfunded_db)
   \<and> GetUserTransactionSum overfunded_db 1 = Inl ErrOutOfRange
   \<and> RunReconciliation overfunded_db =
       Inr [\<lparr>r_UserID = 2, r_StoredBalance = 5, r_CalculatedBalance = 5,
             r_Difference = 0, r_HasMismatch = False\<rparr>]"
proof -
  have h1: "list_all entry_wf (transactions scenario_db)"
    by (simp add: scenario_db_def entry_wf_def)
  have h2: "list_all entry_wf (transactions overfunded_db)"
    by (simp add: overfunded_db_def entry_wf_def)
  have h3: "GetUserTransactionSum overfunded_db 1 = Inl ErrOutOfRange"
    by (simp add: overfunded_db_def sum_defs)
  from reconciliation_matches_specification [of scenario_db]
    reconciliation_matches_specification [of overfunded_db] h1 h2 h3
  show ?thesis by (simp add: reconcile_spec_scenario reconcile_spec_overfunded)
qed

end
